theory Spec2Isabelle
  imports Main "HOL-Library.Word"
begin

section \<open>Data model of main.go\<close>

text \<open>
  The program is one Go file. It fetches a registry token from ECR, wraps it in a
  Kubernetes secret, and for every namespace event writes that secret and makes the
  namespace's default service account reference it.

  The AWS SDK, the Kubernetes client and the flag package are libraries outside the
  repository. They are modelled as an environment: a cluster store that the client calls
  read and write, and a record of the replies and faults the outside world injects into
  one reconciliation. Every client call and every log line is appended to a trace, so
  that "which calls were made" is a property of the returned state.
\<close>

subsection \<open>Configuration (lines 28-50)\<close>

record config =
  Kubecfg :: string
  KubeMasterURL :: string
  AWSAccessKeyID :: string
  AWSSecretAccessKey :: string
  AWSRegion :: string
  RefreshInterval :: int

text \<open>
  The command line as the flag package hands it over: \<open>None\<close> is a flag that was not
  given, which takes the default written in \<open>parse\<close>.
\<close>

record flags =
  flag_kubecfg :: "string option"
  flag_kube_master_url :: "string option"
  flag_aws_access_key_id :: "string option"
  flag_aws_secret_access_key :: "string option"
  flag_aws_region :: "string option"
  flag_refresh_interval :: "int option"

definition flagString :: "string option \<Rightarrow> string \<Rightarrow> string" where
  "flagString given dflt = (case given of None \<Rightarrow> dflt | Some v \<Rightarrow> v)"

definition flagInt :: "int option \<Rightarrow> int \<Rightarrow> int" where
  "flagInt given dflt = (case given of None \<Rightarrow> dflt | Some v \<Rightarrow> v)"

definition parse :: "flags \<Rightarrow> config" where
  "parse fl =
     \<lparr> Kubecfg = flagString (flag_kubecfg fl) [],
       KubeMasterURL = flagString (flag_kube_master_url fl) [],
       AWSAccessKeyID = flagString (flag_aws_access_key_id fl) [],
       AWSSecretAccessKey = flagString (flag_aws_secret_access_key fl) [],
       AWSRegion = flagString (flag_aws_region fl) [],
       RefreshInterval = flagInt (flag_refresh_interval fl) 60 \<rparr>"

subsection \<open>Durations (Go's time package: int64 nanoseconds)\<close>

type_synonym duration = "64 word"

definition Nanosecond :: duration where "Nanosecond = 1"
definition Microsecond :: duration where "Microsecond = 1000 * Nanosecond"
definition Millisecond :: duration where "Millisecond = 1000 * Microsecond"
definition Second :: duration where "Second = 1000 * Millisecond"
definition Minute :: duration where "Minute = 60 * Second"

text \<open>
  Line 152: the resync period that \<open>main\<close> passes to \<open>WatchNamespaces\<close> is
  \<open>time.Duration(1)*time.Minute\<close>. The configuration is in scope there and is not read.
\<close>

definition mainResyncPeriod :: "config \<Rightarrow> duration" where
  "mainResyncPeriod cfg = 1 * Minute"

subsection \<open>Cluster objects\<close>

record secret =
  secName :: string
  secData :: "string \<rightharpoonup> string"
  secType :: string

record localObjectReference =
  refName :: string

record serviceAccount =
  saName :: string
  ImagePullSecrets :: "localObjectReference list"

record namespace =
  nsName :: string
  deletionTimestamp :: "int option"

text \<open>The zero value \<open>&v1.ServiceAccount{}\<close> that the client's Get fills in.\<close>

definition zeroServiceAccount :: serviceAccount where
  "zeroServiceAccount = \<lparr> saName = [], ImagePullSecrets = [] \<rparr>"

subsection \<open>Errors, panics and the trace\<close>

datatype api_error = NotFound | AlreadyExists | Forbidden | Unavailable | EmptyName

datatype ecr_error = AwsError string | PlainError

datatype panic = SessionMust | NilDereference | IndexOutOfRange

datatype handler_error = ReadError api_error | CouldUpdate api_error

datatype log_level = Info | Error | Stdout

datatype api_call =
    EcrGetAuthorizationToken string
  | SecretsGet string string
  | SecretsUpdate string secret
  | SecretsCreate string secret
  | ServiceAccountsGet string string
  | ServiceAccountsUpdate string serviceAccount

datatype event = Call api_call | Log log_level string

text \<open>
  The cluster: secrets keyed by (namespace, name); for each service account, keyed the
  same way, its list of pull-secret references (its other fields play no part); and the
  trace of calls and log lines so far. A log event records the message's format string,
  not its rendered arguments.
\<close>

record cluster =
  secrets :: "(string \<times> string) \<rightharpoonup> secret"
  serviceAccounts :: "(string \<times> string) \<rightharpoonup> localObjectReference list"
  trace :: "event list"

definition emit :: "event \<Rightarrow> cluster \<Rightarrow> cluster" where
  "emit ev w = w\<lparr> trace := trace w @ [ev] \<rparr>"

subsection \<open>What the outside world answers during one reconciliation\<close>

record authorizationData =
  AuthorizationToken :: "string option"
  ProxyEndpoint :: "string option"

record getAuthorizationTokenOutput =
  AuthorizationData :: "authorizationData list"

text \<open>
  \<open>sessionError\<close>: \<open>session.NewSession\<close> failed (then \<open>session.Must\<close> panics).
  \<open>ecrReply\<close>: the pair \<open>(result, err)\<close> of \<open>GetAuthorizationToken\<close>; pointers are
  options. The five faults are transport or permission failures of the five cluster
  calls; without a fault a call succeeds or fails as the store dictates.
\<close>

record env =
  sessionError :: bool
  ecrReply :: "getAuthorizationTokenOutput option \<times> ecr_error option"
  secretsGetFault :: "api_error option"
  secretsUpdateFault :: "api_error option"
  secretsCreateFault :: "api_error option"
  serviceAccountsGetFault :: "api_error option"
  serviceAccountsUpdateFault :: "api_error option"

section \<open>The secret payload (lines 24-26, 107-117)\<close>

definition dockerJSONTemplate :: string where
  \<open>dockerJSONTemplate = ''{"auths":{"%s":{"auth":"%s","email":"none"}}}''\<close>

text \<open>
  \<open>fmt.Sprintf\<close> on string operands: \<open>%s\<close> and \<open>%v\<close> copy the operand, \<open>%%\<close> is a
  percent sign, a verb with no operand left prints \<open>%!v(MISSING)\<close>, a lone \<open>%\<close> at the
  end prints \<open>%!(NOVERB)\<close>, operands left over print \<open>%!(EXTRA string=..)\<close>, and any
  other verb prints \<open>%!v(string=..)\<close> (flags, widths and the verbs x, X and q are outside
  this fragment; the template uses \<open>%s\<close> only).
\<close>

fun extraOperands :: "string list \<Rightarrow> string" where
  "extraOperands [] = []"
| "extraOperands [a] = ''string='' @ a"
| "extraOperands (a # b # bs) = ''string='' @ a @ '', '' @ extraOperands (b # bs)"

fun Sprintf :: "string \<Rightarrow> string list \<Rightarrow> string" where
  "Sprintf [] [] = []"
| "Sprintf [] (a # as) = ''%!(EXTRA '' @ extraOperands (a # as) @ '')''"
| "Sprintf [c] args =
     (if c = CHR ''%'' then ''%!(NOVERB)'' @ Sprintf [] args else c # Sprintf [] args)"
| "Sprintf (c # v # fs) args =
     (if c = CHR ''%'' then
        (if v = CHR ''%'' then CHR ''%'' # Sprintf fs args
         else (case args of
             [] \<Rightarrow> ''%!'' @ [v] @ ''(MISSING)'' @ Sprintf fs []
           | a # as \<Rightarrow>
               (if v = CHR ''s'' \<or> v = CHR ''v'' then a @ Sprintf fs as
                else ''%!'' @ [v] @ ''(string='' @ a @ '')'' @ Sprintf fs as)))
      else c # Sprintf (v # fs) args)"

text \<open>
  Modelled from the spec: the decoder of section 4.2's round-trip property ("decoding the
  produced bytes back into the same structural shape"). The repository has no decoder;
  this one reads the payload shape with JSON string literals: a literal ends at the first
  unescaped double quote, a backslash introduces one of the two-character escapes, and
  a raw control character is refused.
\<close>

definition jsonUnescape :: "char \<Rightarrow> char option" where
  \<open>jsonUnescape c =
     (if c = CHR ''"'' then Some (CHR ''"'')
      else if c = CHR 0x5C then Some (CHR 0x5C)
      else if c = CHR ''/'' then Some (CHR ''/'')
      else if c = CHR ''b'' then Some (CHR 0x08)
      else if c = CHR ''f'' then Some (CHR 0x0C)
      else if c = CHR ''n'' then Some (CHR 0x0A)
      else if c = CHR ''r'' then Some (CHR 0x0D)
      else if c = CHR ''t'' then Some (CHR 0x09)
      else None)\<close>

fun jsonStringBody :: "string \<Rightarrow> (string \<times> string) option" where
  "jsonStringBody [] = None"
| "jsonStringBody [c] = (if c = CHR 0x22 then Some ([], []) else None)"
| "jsonStringBody (c # d # cs) =
     (if c = CHR 0x22 then Some ([], d # cs)
      else if c = CHR 0x5C then
        (case jsonUnescape d of
           None \<Rightarrow> None
         | Some u \<Rightarrow> map_option (\<lambda>(s, r). (u # s, r)) (jsonStringBody cs))
      else if (of_char c :: nat) < 32 then None
      else map_option (\<lambda>(s, r). (c # s, r)) (jsonStringBody (d # cs)))"

fun expect :: "string \<Rightarrow> string \<Rightarrow> string option" where
  "expect [] s = Some s"
| "expect (p # ps) [] = None"
| "expect (p # ps) (c # cs) = (if p = c then expect ps cs else None)"

definition decodeDockerJSON :: "string \<Rightarrow> (string \<times> string) option" where
  \<open>decodeDockerJSON bytes =
     (case expect ''{"auths":{"'' bytes of
        None \<Rightarrow> None
      | Some r1 \<Rightarrow>
     (case jsonStringBody r1 of
        None \<Rightarrow> None
      | Some (endpoint, r2) \<Rightarrow>
     (case expect '':{"auth":"'' r2 of
        None \<Rightarrow> None
      | Some r3 \<Rightarrow>
     (case jsonStringBody r3 of
        None \<Rightarrow> None
      | Some (token, r4) \<Rightarrow>
     (case expect '',"email":"none"}}}'' r4 of
        None \<Rightarrow> None
      | Some r5 \<Rightarrow> (if r5 = [] then Some (endpoint, token) else None))))))\<close>

text \<open>A string that a JSON literal carries verbatim: no quote, no backslash, no control character.\<close>

definition jsonPlain :: "string \<Rightarrow> bool" where
  "jsonPlain s = list_all (\<lambda>c. c \<noteq> CHR 0x22 \<and> c \<noteq> CHR 0x5C \<and> 32 \<le> (of_char c :: nat)) s"

section \<open>getECRSecret (lines 88-118)\<close>

text \<open>
  The error branch (lines 95-106) only prints; control then reaches line 107 whatever
  \<open>err\<close> was. Line 107 indexes \<open>result.AuthorizationData[0]\<close> and dereferences both string
  pointers; each of those is a panic when the pointer is nil or the list is empty.
\<close>

definition getECRSecret ::
  "env \<Rightarrow> string \<Rightarrow> string \<Rightarrow> cluster \<Rightarrow> (panic + secret) \<times> cluster" where
  "getECRSecret e region name w =
     (let w1 = emit (Log Info ''Fetching ECR token for region: %s'') w in
      if sessionError e then (Inl SessionMust, w1)
      else
        (let w2 = emit (Call (EcrGetAuthorizationToken region)) w1;
             w3 = (case snd (ecrReply e) of
                     None \<Rightarrow> w2
                   | Some PlainError \<Rightarrow> w2
                   | Some (AwsError code) \<Rightarrow>
                       (if code = ''ServerException''
                          then emit (Log Stdout ''ServerException'') w2
                        else if code = ''InvalidParameterException''
                          then emit (Log Stdout ''InvalidParameterException'') w2
                        else emit (Log Stdout []) w2))
         in case fst (ecrReply e) of
              None \<Rightarrow> (Inl NilDereference, w3)
            | Some result \<Rightarrow>
                (case AuthorizationData result of
                   [] \<Rightarrow> (Inl IndexOutOfRange, w3)
                 | d # _ \<Rightarrow>
                     (case AuthorizationToken d of
                        None \<Rightarrow> (Inl NilDereference, w3)
                      | Some token \<Rightarrow>
                          (case ProxyEndpoint d of
                             None \<Rightarrow> (Inl NilDereference, w3)
                           | Some endpoint \<Rightarrow>
                               (Inr \<lparr> secName = name,
                                      secData = [''.dockerconfigjson'' \<mapsto>
                                                   Sprintf dockerJSONTemplate [endpoint, token]],
                                      secType = ''kubernetes.io/dockerconfigjson'' \<rparr>,
                                w3))))))"

section \<open>The cluster client, as the handler uses it\<close>

text \<open>
  Each call appends itself to the trace, then fails with the injected fault if there is
  one, and otherwise acts on the store: Get finds the object or reports \<open>NotFound\<close>, Update
  needs the object to exist, Create needs it not to exist. Update addresses the object by
  the name inside the object it is given; the client refuses an empty name before any
  request is sent. The handler discards the objects that the secret calls and the
  updates return, so those calls return the error alone.
\<close>

definition secretsGet :: "env \<Rightarrow> string \<Rightarrow> string \<Rightarrow> cluster \<Rightarrow> api_error option \<times> cluster" where
  "secretsGet e ns name w =
     (let w' = emit (Call (SecretsGet ns name)) w in
      case secretsGetFault e of
        Some x \<Rightarrow> (Some x, w')
      | None \<Rightarrow>
          (case secrets w (ns, name) of
             None \<Rightarrow> (Some NotFound, w')
           | Some _ \<Rightarrow> (None, w')))"

definition secretsUpdate :: "env \<Rightarrow> string \<Rightarrow> secret \<Rightarrow> cluster \<Rightarrow> api_error option \<times> cluster" where
  "secretsUpdate e ns s w =
     (let w' = emit (Call (SecretsUpdate ns s)) w in
      case secretsUpdateFault e of
        Some x \<Rightarrow> (Some x, w')
      | None \<Rightarrow>
          (if secName s = [] then (Some EmptyName, w')
           else
             (case secrets w (ns, secName s) of
                None \<Rightarrow> (Some NotFound, w')
              | Some _ \<Rightarrow> (None, w'\<lparr> secrets := (secrets w)((ns, secName s) \<mapsto> s) \<rparr>))))"

definition secretsCreate :: "env \<Rightarrow> string \<Rightarrow> secret \<Rightarrow> cluster \<Rightarrow> api_error option \<times> cluster" where
  "secretsCreate e ns s w =
     (let w' = emit (Call (SecretsCreate ns s)) w in
      case secretsCreateFault e of
        Some x \<Rightarrow> (Some x, w')
      | None \<Rightarrow>
          (case secrets w (ns, secName s) of
             Some _ \<Rightarrow> (Some AlreadyExists, w')
           | None \<Rightarrow> (None, w'\<lparr> secrets := (secrets w)((ns, secName s) \<mapsto> s) \<rparr>)))"

text \<open>
  \<open>ServiceAccounts(ns).Get\<close> returns a pointer to a service account in every case: the
  object read, or the zero value it allocated when the read failed. The handler reads
  the object whatever the error was, so the call returns both.
\<close>

definition serviceAccountsGet ::
  "env \<Rightarrow> string \<Rightarrow> string \<Rightarrow> cluster \<Rightarrow> (serviceAccount \<times> api_error option) \<times> cluster" where
  "serviceAccountsGet e ns name w =
     (let w' = emit (Call (ServiceAccountsGet ns name)) w in
      case serviceAccountsGetFault e of
        Some x \<Rightarrow> ((zeroServiceAccount, Some x), w')
      | None \<Rightarrow>
          (case serviceAccounts w (ns, name) of
             None \<Rightarrow> ((zeroServiceAccount, Some NotFound), w')
           | Some refs \<Rightarrow> ((\<lparr> saName = name, ImagePullSecrets = refs \<rparr>, None), w')))"

definition serviceAccountsUpdate ::
  "env \<Rightarrow> string \<Rightarrow> serviceAccount \<Rightarrow> cluster \<Rightarrow> api_error option \<times> cluster" where
  "serviceAccountsUpdate e ns sa w =
     (let w' = emit (Call (ServiceAccountsUpdate ns sa)) w in
      case serviceAccountsUpdateFault e of
        Some x \<Rightarrow> (Some x, w')
      | None \<Rightarrow>
          (if saName sa = [] then (Some EmptyName, w')
           else
             (case serviceAccounts w (ns, saName sa) of
                None \<Rightarrow> (Some NotFound, w')
              | Some _ \<Rightarrow>
                  (None, w'\<lparr> serviceAccounts :=
                               (serviceAccounts w)((ns, saName sa) \<mapsto> ImagePullSecrets sa) \<rparr>))))"

section \<open>The reconciliation handler (lines 145, 152-202)\<close>

definition secretName :: string where
  "secretName = ''ecrsecret''"

text \<open>
  Line 177 compares two error interfaces with \<open>!=\<close>. Errors returned by two different
  calls are distinct allocations, so they are equal only when both are nil.
\<close>

definition errNotEqual :: "api_error option \<Rightarrow> api_error option \<Rightarrow> bool" where
  "errNotEqual a b = (\<not> (a = None \<and> b = None))"

text \<open>
  Lines 181-187: the loop over the reference list. At the first entry with the wanted
  name it overwrites that entry, sets the flag and breaks; the entries after it are not
  visited.
\<close>

fun scanImagePullSecrets ::
  "string \<Rightarrow> localObjectReference list \<Rightarrow> localObjectReference list \<times> bool" where
  "scanImagePullSecrets name [] = ([], False)"
| "scanImagePullSecrets name (r # rs) =
     (if refName r = name then (\<lparr> refName = name \<rparr> # rs, True)
      else (case scanImagePullSecrets name rs of (rs', found) \<Rightarrow> (r # rs', found)))"

text \<open>
  Lines 174-199, the second half of the closure: read the default service account, scan
  and append, update. \<open>err\<close> is the variable that the secret read on line 158 set.
\<close>

definition ensureDefaultServiceAccount ::
  "env \<Rightarrow> namespace \<Rightarrow> secret \<Rightarrow> api_error option \<Rightarrow> cluster
     \<Rightarrow> (panic + handler_error option) \<times> cluster" where
  "ensureDefaultServiceAccount e ns newSecret err w =
     (case serviceAccountsGet e (nsName ns) ''default'' w of
        ((defaultServiceAcccont, defaultServiceErr), w1) \<Rightarrow>
          (let w2 = (if errNotEqual err defaultServiceErr
                     then emit (Log Error ''Could not get ServiceAccounts! %v'') w1
                     else w1);
               scanned = scanImagePullSecrets (secName newSecret)
                           (ImagePullSecrets defaultServiceAcccont);
               imagePullSecretFound = snd scanned;
               refs = (if \<not> imagePullSecretFound
                       then fst scanned @ [\<lparr> refName = secName newSecret \<rparr>]
                       else fst scanned)
           in case serviceAccountsUpdate e (nsName ns)
                     (defaultServiceAcccont\<lparr> ImagePullSecrets := refs \<rparr>) w2 of
                (None, w3) \<Rightarrow> (Inr None, w3)
              | (Some x, w3) \<Rightarrow> (Inr (Some (CouldUpdate x)), w3)))"

definition handler ::
  "config \<Rightarrow> env \<Rightarrow> namespace \<Rightarrow> cluster \<Rightarrow> (panic + handler_error option) \<times> cluster" where
  "handler cfg e ns w =
     (if deletionTimestamp ns = None then
        (case getECRSecret e (AWSRegion cfg) secretName w of
           (Inl p, w1) \<Rightarrow> (Inl p, w1)
         | (Inr newSecret, w1) \<Rightarrow>
             (case secretsGet e (nsName ns) secretName w1 of
                (err, w2) \<Rightarrow>
                  if err = None then
                    (case secretsUpdate e (nsName ns) newSecret
                            (emit (Log Info ''Found existing secret in ns: %s, updating...'') w2) of
                       (updateErr, w3) \<Rightarrow>
                         ensureDefaultServiceAccount e ns newSecret err
                           (if updateErr \<noteq> None
                            then emit (Log Error ''Error creating secret in ns %s: %s'') w3
                            else w3))
                  else
                    (case secretsCreate e (nsName ns) newSecret
                            (emit (Log Info ''Secret does not exist in ns: %s, creating...'') w2) of
                       (createErr, w3) \<Rightarrow>
                         if createErr \<noteq> None
                         then (Inr (map_option ReadError err),
                               emit (Log Error ''Error creating secret in ns %s: '') w3)
                         else ensureDefaultServiceAccount e ns newSecret err w3)))
      else (Inr None, w))"

section \<open>Dispatch (lines 121-142)\<close>



text \<open>Which events of a trace are calls of a given kind.\<close>

fun isSecretsCreate :: "event \<Rightarrow> bool" where
  "isSecretsCreate (Call (SecretsCreate _ _)) = True"
| "isSecretsCreate _ = False"

fun isServiceAccountsGet :: "event \<Rightarrow> bool" where
  "isServiceAccountsGet (Call (ServiceAccountsGet _ _)) = True"
| "isServiceAccountsGet _ = False"

fun isServiceAccountsUpdate :: "event \<Rightarrow> bool" where
  "isServiceAccountsUpdate (Call (ServiceAccountsUpdate _ _)) = True"
| "isServiceAccountsUpdate _ = False"

text \<open>How many events of a kind the trace of a cluster holds.\<close>

definition calls :: "(event \<Rightarrow> bool) \<Rightarrow> cluster \<Rightarrow> nat" where
  "calls P w = length (filter P (trace w))"

text \<open>How many references of a list carry a given name.\<close>

definition countNamed :: "string \<Rightarrow> localObjectReference list \<Rightarrow> nat" where
  "countNamed name refs = length (filter (\<lambda>r. refName r = name) refs)"

text \<open>The payload a credential fetch put under the secret's one data key, if it returned a secret.\<close>

definition payloadOf :: "panic + secret \<Rightarrow> string option" where
  "payloadOf r = (case r of Inl _ \<Rightarrow> None | Inr s \<Rightarrow> secData s ''.dockerconfigjson'')"



section \<open>Concrete inputs\<close>

definition cfg0 :: config where
  "cfg0 = parse \<lparr> flag_kubecfg = None, flag_kube_master_url = None,
                   flag_aws_access_key_id = None, flag_aws_secret_access_key = None,
                   flag_aws_region = Some ''us-east-1'', flag_refresh_interval = Some 30 \<rparr>"

definition ecrOk :: "getAuthorizationTokenOutput option \<times> ecr_error option" where
  "ecrOk = (Some \<lparr> AuthorizationData =
                     [\<lparr> AuthorizationToken = Some ''QUJD'',
                        ProxyEndpoint = Some ''https://123.dkr.ecr.us-east-1.amazonaws.com'' \<rparr>] \<rparr>,
            None)"

definition envOk :: env where
  "envOk = \<lparr> sessionError = False, ecrReply = ecrOk,
             secretsGetFault = None, secretsUpdateFault = None, secretsCreateFault = None,
             serviceAccountsGetFault = None, serviceAccountsUpdateFault = None \<rparr>"

definition envEcrDown :: env where
  "envEcrDown =
     envOk\<lparr> ecrReply := (Some \<lparr> AuthorizationData = [] \<rparr>, Some (AwsError ''ServerException'')) \<rparr>"

definition nsDev :: namespace where
  "nsDev = \<lparr> nsName = ''dev'', deletionTimestamp = None \<rparr>"

definition otherRef :: localObjectReference where
  "otherRef = \<lparr> refName = ''other-secret'' \<rparr>"

definition ecrRef :: localObjectReference where
  "ecrRef = \<lparr> refName = ''ecrsecret'' \<rparr>"

definition clusterWith :: "localObjectReference list \<Rightarrow> cluster" where
  "clusterWith refs =
     \<lparr> secrets = Map.empty,
       serviceAccounts = [(''dev'', ''default'') \<mapsto> refs],
       trace = [] \<rparr>"

definition envReadForbidden :: env where
  "envReadForbidden = envOk\<lparr> secretsGetFault := Some Forbidden \<rparr>"

definition envCreateFails :: env where
  "envCreateFails = envOk\<lparr> secretsCreateFault := Some Forbidden \<rparr>"

definition envUpdateFails :: env where
  "envUpdateFails = envOk\<lparr> secretsUpdateFault := Some Unavailable \<rparr>"

text \<open>The secret that \<open>getECRSecret\<close> builds from the reply \<open>ecrOk\<close>.\<close>

definition secretOk :: secret where
  "secretOk =
     \<lparr> secName = ''ecrsecret'',
       secData = [''.dockerconfigjson'' \<mapsto>
                    Sprintf dockerJSONTemplate
                      [''https://123.dkr.ecr.us-east-1.amazonaws.com'', ''QUJD'']],
       secType = ''kubernetes.io/dockerconfigjson'' \<rparr>"

definition clusterWithSecret :: "localObjectReference list \<Rightarrow> cluster" where
  "clusterWithSecret refs =
     \<lparr> secrets = [(''dev'', ''ecrsecret'') \<mapsto> secretOk],
       serviceAccounts = [(''dev'', ''default'') \<mapsto> refs],
       trace = [] \<rparr>"

section \<open>Lemmas\<close>

lemmas client_defs = secretsGet_def secretsUpdate_def secretsCreate_def
  serviceAccountsGet_def serviceAccountsUpdate_def

lemmas run_defs = handler_def ensureDefaultServiceAccount_def getECRSecret_def client_defs
  emit_def errNotEqual_def secretName_def zeroServiceAccount_def Let_def

lemmas input_defs = cfg0_def parse_def flagString_def flagInt_def envOk_def ecrOk_def
  envEcrDown_def nsDev_def clusterWith_def otherRef_def ecrRef_def
  envReadForbidden_def envCreateFails_def envUpdateFails_def clusterWithSecret_def

subsection \<open>The payload\<close>

lemma sprintf_template:
  \<open>Sprintf dockerJSONTemplate [e, t] =
     ''{"auths":{"'' @ e @ ''":{"auth":"'' @ t @ ''","email":"none"}}}''\<close>
  by (simp add: dockerJSONTemplate_def)

lemma expect_append: "expect p (p @ s) = Some s"
  by (induction p) auto

lemma expect_self: "expect p p = Some []"
  by (induction p) auto

lemma jsonStringBody_plain:
  "jsonPlain s \<Longrightarrow> jsonStringBody (s @ CHR 0x22 # r) = Some (s, r)"
proof (induction s)
  case Nil
  then show ?case by (cases r) auto
next
  case (Cons c s)
  then show ?case
    by (cases "s @ CHR 0x22 # r") (auto simp: jsonPlain_def)
qed

lemma decode_roundtrip:
  assumes "jsonPlain e" "jsonPlain t"
  shows "decodeDockerJSON (Sprintf dockerJSONTemplate [e, t]) = Some (e, t)"
proof -
  have shape: \<open>Sprintf dockerJSONTemplate [e, t] =
     ''{"auths":{"'' @ (e @ CHR 0x22 # ('':{"auth":"'' @ (t @ CHR 0x22 # '',"email":"none"}}}'')))\<close>
    by (simp add: sprintf_template)
  show ?thesis
    unfolding shape decodeDockerJSON_def expect_append
    by (simp add: jsonStringBody_plain[OF assms(1)] jsonStringBody_plain[OF assms(2)]
          expect_append expect_self del: expect.simps append.simps)
qed

lemma getECRSecret_payload:
  assumes "\<not> sessionError env"
    and "ecrReply env =
           (Some \<lparr> AuthorizationData =
                     \<lparr> AuthorizationToken = Some t, ProxyEndpoint = Some e \<rparr> # ds \<rparr>, err)"
  shows "payloadOf (fst (getECRSecret env region name w)) = Some (Sprintf dockerJSONTemplate [e, t])"
  using assms by (simp add: getECRSecret_def payloadOf_def Let_def)

subsection \<open>The scan, the client calls and the identity step\<close>

lemma scan_absent:
  "name \<notin> refName ` set refs \<Longrightarrow> scanImagePullSecrets name refs = (refs, False)"
  by (induction refs) auto

lemma scan_present:
  "name \<in> refName ` set refs \<Longrightarrow> scanImagePullSecrets name refs = (refs, True)"
  by (induction refs) auto

lemma scan_first_match:
  "name \<notin> refName ` set pre \<Longrightarrow> refName r = name \<Longrightarrow>
   scanImagePullSecrets name (pre @ r # post) = (pre @ r # post, True)"
  by (induction pre) auto

lemma getECRSecret_frame:
  "secrets (snd (getECRSecret e region name w)) = secrets w"
  "serviceAccounts (snd (getECRSecret e region name w)) = serviceAccounts w"
  by (auto simp: getECRSecret_def emit_def Let_def split: option.splits list.splits ecr_error.splits)

lemma getECRSecret_name:
  "getECRSecret e region name w = (Inr s, w1) \<Longrightarrow> secName s = name"
  by (auto simp: getECRSecret_def emit_def Let_def split: option.splits list.splits ecr_error.splits if_splits)


lemma emit_simps:
  "secrets (emit ev w) = secrets w"
  "serviceAccounts (emit ev w) = serviceAccounts w"
  "trace (emit ev w) = trace w @ [ev]"
  by (simp_all add: emit_def)

lemma saGet_fault:
  "serviceAccountsGetFault e = Some x \<Longrightarrow>
   serviceAccountsGet e ns n w = ((zeroServiceAccount, Some x), emit (Call (ServiceAccountsGet ns n)) w)"
  by (simp add: serviceAccountsGet_def Let_def)

lemma saGet_missing:
  "serviceAccountsGetFault e = None \<Longrightarrow> serviceAccounts w (ns, n) = None \<Longrightarrow>
   serviceAccountsGet e ns n w = ((zeroServiceAccount, Some NotFound), emit (Call (ServiceAccountsGet ns n)) w)"
  by (simp add: serviceAccountsGet_def Let_def)

lemma saGet_found:
  "serviceAccountsGetFault e = None \<Longrightarrow> serviceAccounts w (ns, n) = Some refs \<Longrightarrow>
   serviceAccountsGet e ns n w =
     ((\<lparr> saName = n, ImagePullSecrets = refs \<rparr>, None), emit (Call (ServiceAccountsGet ns n)) w)"
  by (simp add: serviceAccountsGet_def Let_def)

lemma saUpdate_nameless:
  "(fst (serviceAccountsUpdate e ns \<lparr> saName = [], ImagePullSecrets = refs \<rparr> w) = None) = False"
  "serviceAccounts (snd (serviceAccountsUpdate e ns \<lparr> saName = [], ImagePullSecrets = refs \<rparr> w)) = serviceAccounts w"
  by (simp_all add: serviceAccountsUpdate_def emit_def Let_def split: option.splits)

lemma saUpdate_store:
  "serviceAccounts (snd (serviceAccountsUpdate e ns sa w)) =
     (if fst (serviceAccountsUpdate e ns sa w) = None
      then (serviceAccounts w)((ns, saName sa) \<mapsto> ImagePullSecrets sa)
      else serviceAccounts w)"
  by (simp add: serviceAccountsUpdate_def emit_def Let_def split: option.splits)

lemma saUpdate_fst_cong:
  "serviceAccounts w = serviceAccounts w' \<Longrightarrow>
   fst (serviceAccountsUpdate e ns sa w) = fst (serviceAccountsUpdate e ns sa w')"
  by (simp add: serviceAccountsUpdate_def emit_def Let_def split: option.splits)

lemma saUpdate_trace:
  "trace (snd (serviceAccountsUpdate e ns sa w)) = trace w @ [Call (ServiceAccountsUpdate ns sa)]"
  by (simp add: serviceAccountsUpdate_def emit_def Let_def split: option.splits)

text \<open>The list that lines 180-192 leave in the object.\<close>

lemma scan_append:
  "(if \<not> snd (scanImagePullSecrets name refs)
    then fst (scanImagePullSecrets name refs) @ [\<lparr> refName = name \<rparr>]
    else fst (scanImagePullSecrets name refs)) =
   (if name \<in> refName ` set refs then refs else refs @ [\<lparr> refName = name \<rparr>])"
  by (simp add: scan_present scan_absent)

text \<open>The identity step as one update call, by the outcome of the read.\<close>

lemma ensure_unfold:
  assumes "serviceAccountsGet e (nsName ns) ''default'' w = ((sa, derr), w1)"
  shows "ensureDefaultServiceAccount e ns s err w =
     (case serviceAccountsUpdate e (nsName ns)
        (sa\<lparr> ImagePullSecrets :=
              (if secName s \<in> refName ` set (ImagePullSecrets sa) then ImagePullSecrets sa
               else ImagePullSecrets sa @ [\<lparr> refName = secName s \<rparr>]) \<rparr>)
        (if errNotEqual err derr then emit (Log Error ''Could not get ServiceAccounts! %v'') w1 else w1) of
        (None, w3) \<Rightarrow> (Inr None, w3)
      | (Some x, w3) \<Rightarrow> (Inr (Some (CouldUpdate x)), w3))"
  unfolding ensureDefaultServiceAccount_def assms Let_def prod.case scan_append ..


lemma ensure_parts:
  fixes s :: secret and err :: "api_error option"
  assumes "serviceAccountsGet e (nsName ns) ''default'' w = ((sa, derr), w1)"
  defines "sa' \<equiv> sa\<lparr> ImagePullSecrets :=
              (if secName s \<in> refName ` set (ImagePullSecrets sa) then ImagePullSecrets sa
               else ImagePullSecrets sa @ [\<lparr> refName = secName s \<rparr>]) \<rparr>"
  defines "w2 \<equiv> (if errNotEqual err derr
                  then emit (Log Error ''Could not get ServiceAccounts! %v'') w1 else w1)"
  shows "fst (ensureDefaultServiceAccount e ns s err w) =
           (case fst (serviceAccountsUpdate e (nsName ns) sa' w2) of
              None \<Rightarrow> Inr None | Some x \<Rightarrow> Inr (Some (CouldUpdate x)))"
    and "snd (ensureDefaultServiceAccount e ns s err w) =
           snd (serviceAccountsUpdate e (nsName ns) sa' w2)"
  unfolding ensure_unfold[OF assms(1)] sa'_def w2_def
  by (simp_all split: prod.splits option.splits)

lemma ensure_get_failed:
  assumes "serviceAccountsGetFault e \<noteq> None \<or> serviceAccounts w (nsName ns, ''default'') = None"
  shows "fst (ensureDefaultServiceAccount e ns s err w) \<noteq> Inr None"
    and "serviceAccounts (snd (ensureDefaultServiceAccount e ns s err w)) = serviceAccounts w"
proof -
  obtain x w1 where g: "serviceAccountsGet e (nsName ns) ''default'' w = ((zeroServiceAccount, Some x), w1)"
    and w1: "serviceAccounts w1 = serviceAccounts w"
  proof (cases "serviceAccountsGetFault e")
    case None
    with assms have "serviceAccounts w (nsName ns, ''default'') = None" by simp
    from saGet_missing[OF None this] show ?thesis using that by (simp add: emit_simps)
  next
    case (Some y)
    from saGet_fault[OF Some] show ?thesis using that by (simp add: emit_simps)
  qed
  note p = ensure_parts[OF g, of s err]
  show "fst (ensureDefaultServiceAccount e ns s err w) \<noteq> Inr None"
    unfolding p(1)
    by (simp add: zeroServiceAccount_def saUpdate_nameless(1) split: option.splits)
  show "serviceAccounts (snd (ensureDefaultServiceAccount e ns s err w)) = serviceAccounts w"
    unfolding p(2) by (simp add: saUpdate_nameless(2) zeroServiceAccount_def emit_simps w1)
qed

lemma ensure_get_found:
  fixes s :: secret
  assumes "serviceAccountsGetFault e = None"
    and "serviceAccounts w (nsName ns, ''default'') = Some refs"
  defines "refs' \<equiv> (if secName s \<in> refName ` set refs then refs
                     else refs @ [\<lparr> refName = secName s \<rparr>])"
  shows "serviceAccounts (snd (ensureDefaultServiceAccount e ns s err w)) =
           (if fst (ensureDefaultServiceAccount e ns s err w) = Inr None
            then (serviceAccounts w)((nsName ns, ''default'') \<mapsto> refs')
            else serviceAccounts w)"
proof -
  note p = ensure_parts[OF saGet_found[OF assms(1,2)], of s err]
  show ?thesis
    unfolding p refs'_def
    by (simp add: saUpdate_store emit_simps split: option.splits)
qed

lemma ensure_ok:
  assumes "fst (ensureDefaultServiceAccount e ns s err w) = Inr None"
  shows "\<exists>refs. serviceAccounts w (nsName ns, ''default'') = Some refs \<and>
           serviceAccounts (snd (ensureDefaultServiceAccount e ns s err w)) =
             (serviceAccounts w)((nsName ns, ''default'') \<mapsto>
                (if secName s \<in> refName ` set refs then refs else refs @ [\<lparr> refName = secName s \<rparr>]))"
proof -
  have "\<not> (serviceAccountsGetFault e \<noteq> None \<or> serviceAccounts w (nsName ns, ''default'') = None)"
    using ensure_get_failed(1)[of e w ns s err] assms by blast
  then have nf: "serviceAccountsGetFault e = None" and "serviceAccounts w (nsName ns, ''default'') \<noteq> None"
    by simp_all
  then obtain refs where r: "serviceAccounts w (nsName ns, ''default'') = Some refs" by auto
  from ensure_get_found[OF nf r, of s err] assms r show ?thesis by simp
qed

lemma ensure_failed:
  assumes "fst (ensureDefaultServiceAccount e ns s err w) \<noteq> Inr None"
  shows "serviceAccounts (snd (ensureDefaultServiceAccount e ns s err w)) = serviceAccounts w"
proof (cases "serviceAccountsGetFault e \<noteq> None \<or> serviceAccounts w (nsName ns, ''default'') = None")
  case True
  then show ?thesis by (rule ensure_get_failed(2))
next
  case False
  then obtain refs where "serviceAccountsGetFault e = None"
      "serviceAccounts w (nsName ns, ''default'') = Some refs" by auto
  from ensure_get_found[OF this, of s err] assms show ?thesis by simp
qed

lemma ensure_present:
  assumes "serviceAccounts w (nsName ns, ''default'') = Some refs"
    and "secName s \<in> refName ` set refs"
  shows "serviceAccounts (snd (ensureDefaultServiceAccount e ns s err w)) = serviceAccounts w"
proof (cases "fst (ensureDefaultServiceAccount e ns s err w) = Inr None")
  case True
  from ensure_ok[OF True] assms show ?thesis by (auto simp: map_upd_triv)
next
  case False
  then show ?thesis by (rule ensure_failed)
qed

lemma ensure_other_key:
  assumes "k \<noteq> (nsName ns, ''default'')"
  shows "serviceAccounts (snd (ensureDefaultServiceAccount e ns s err w)) k = serviceAccounts w k"
proof (cases "fst (ensureDefaultServiceAccount e ns s err w) = Inr None")
  case True
  from ensure_ok[OF True] assms show ?thesis by auto
next
  case False
  then show ?thesis by (simp add: ensure_failed)
qed


lemma secret_ops_frame:
  "serviceAccounts (snd (secretsGet e ns n w)) = serviceAccounts w"
  "serviceAccounts (snd (secretsUpdate e ns s w)) = serviceAccounts w"
  "serviceAccounts (snd (secretsCreate e ns s w)) = serviceAccounts w"
  by (simp_all add: client_defs emit_def Let_def split: option.splits)

lemma secretsGet_secrets:
  "secrets (snd (secretsGet e ns n w)) = secrets w"
  by (simp add: client_defs emit_def Let_def split: option.splits)

lemma secret_ops_trace:
  "trace (snd (secretsGet e ns n w)) = trace w @ [Call (SecretsGet ns n)]"
  "trace (snd (secretsUpdate e ns s w)) = trace w @ [Call (SecretsUpdate ns s)]"
  "trace (snd (secretsCreate e ns s w)) = trace w @ [Call (SecretsCreate ns s)]"
  by (simp_all add: client_defs emit_def Let_def split: option.splits)

lemma secret_ops_fst_cong:
  "secrets w = secrets w' \<Longrightarrow> fst (secretsGet e ns n w) = fst (secretsGet e ns n w')"
  "secrets w = secrets w' \<Longrightarrow> fst (secretsUpdate e ns s w) = fst (secretsUpdate e ns s w')"
  "secrets w = secrets w' \<Longrightarrow> fst (secretsCreate e ns s w) = fst (secretsCreate e ns s w')"
  by (simp_all add: client_defs emit_def Let_def split: option.splits)

lemma saGet_snd:
  "snd (serviceAccountsGet e ns n w) = emit (Call (ServiceAccountsGet ns n)) w"
  by (simp add: serviceAccountsGet_def Let_def split: option.splits)

lemma getECRSecret_calls:
  "calls isSecretsCreate (snd (getECRSecret e region name w)) = calls isSecretsCreate w"
  "calls isServiceAccountsGet (snd (getECRSecret e region name w)) = calls isServiceAccountsGet w"
  "calls isServiceAccountsUpdate (snd (getECRSecret e region name w)) = calls isServiceAccountsUpdate w"
  by (auto simp: getECRSecret_def calls_def emit_def Let_def split: option.splits list.splits ecr_error.splits)

lemma calls_emit:
  "calls P (emit ev w) = (if P ev then Suc (calls P w) else calls P w)"
  by (simp add: calls_def emit_def)

lemma calls_trace_snoc:
  "trace w' = trace w @ [ev] \<Longrightarrow> calls P w' = (if P ev then Suc (calls P w) else calls P w)"
  by (simp add: calls_def)

lemma ensure_calls:
  "calls isServiceAccountsGet (snd (ensureDefaultServiceAccount e ns s err w)) = Suc (calls isServiceAccountsGet w)"
  "calls isServiceAccountsUpdate (snd (ensureDefaultServiceAccount e ns s err w)) = Suc (calls isServiceAccountsUpdate w)"
  "calls isSecretsCreate (snd (ensureDefaultServiceAccount e ns s err w)) = calls isSecretsCreate w"
proof -
  obtain sa derr w1 where g: "serviceAccountsGet e (nsName ns) ''default'' w = ((sa, derr), w1)"
    by (cases "serviceAccountsGet e (nsName ns) ''default'' w") auto
  have w1: "w1 = emit (Call (ServiceAccountsGet (nsName ns) ''default'')) w"
    using saGet_snd[of e "nsName ns" "''default''" w] g by simp
  note p = ensure_parts(2)[OF g, of s err]
  show "calls isServiceAccountsGet (snd (ensureDefaultServiceAccount e ns s err w)) = Suc (calls isServiceAccountsGet w)"
    unfolding p by (simp add: calls_trace_snoc[OF saUpdate_trace] calls_emit w1)
  show "calls isServiceAccountsUpdate (snd (ensureDefaultServiceAccount e ns s err w)) = Suc (calls isServiceAccountsUpdate w)"
    unfolding p by (simp add: calls_trace_snoc[OF saUpdate_trace] calls_emit w1)
  show "calls isSecretsCreate (snd (ensureDefaultServiceAccount e ns s err w)) = calls isSecretsCreate w"
    unfolding p by (simp add: calls_trace_snoc[OF saUpdate_trace] calls_emit w1)
qed


subsection \<open>The handler, arm by arm\<close>

lemma handler_panic:
  assumes "deletionTimestamp ns = None"
    and "getECRSecret e (AWSRegion cfg) secretName w = (Inl p, w1)"
  shows "handler cfg e ns w = (Inl p, w1)"
  using assms by (simp add: handler_def)

lemma handler_update_arm:
  assumes "deletionTimestamp ns = None"
    and "getECRSecret e (AWSRegion cfg) secretName w = (Inr s, w1)"
    and "secretsGet e (nsName ns) secretName w1 = (None, w2)"
    and "secretsUpdate e (nsName ns) s
           (emit (Log Info ''Found existing secret in ns: %s, updating...'') w2) = (ue, w3)"
  shows "handler cfg e ns w =
           ensureDefaultServiceAccount e ns s None
             (if ue \<noteq> None then emit (Log Error ''Error creating secret in ns %s: %s'') w3 else w3)"
  using assms by (simp add: handler_def)

lemma handler_create_arm:
  assumes "deletionTimestamp ns = None"
    and "getECRSecret e (AWSRegion cfg) secretName w = (Inr s, w1)"
    and "secretsGet e (nsName ns) secretName w1 = (Some x, w2)"
    and "secretsCreate e (nsName ns) s
           (emit (Log Info ''Secret does not exist in ns: %s, creating...'') w2) = (ce, w3)"
  shows "handler cfg e ns w =
           (if ce \<noteq> None
            then (Inr (Some (ReadError x)), emit (Log Error ''Error creating secret in ns %s: '') w3)
            else ensureDefaultServiceAccount e ns s (Some x) w3)"
  using assms by (simp add: handler_def)

text \<open>
  Whatever happens, the handler either leaves the service accounts as they were without
  reporting success on a live namespace, or ends in the identity step run on a cluster
  with the same service accounts.
\<close>

lemma handler_shape:
  obtains (untouched)
      "serviceAccounts (snd (handler cfg e ns w)) = serviceAccounts w"
      "deletionTimestamp ns \<noteq> None \<or> fst (handler cfg e ns w) \<noteq> Inr None"
  | (identity) s err w' where
      "deletionTimestamp ns = None" "secName s = secretName"
      "serviceAccounts w' = serviceAccounts w"
      "handler cfg e ns w = ensureDefaultServiceAccount e ns s err w'"
proof (cases "deletionTimestamp ns = None")
  case False
  then show ?thesis by (intro untouched) (auto simp: handler_def)
next
  case live: True
  obtain r w1 where g: "getECRSecret e (AWSRegion cfg) secretName w = (r, w1)"
    by (cases "getECRSecret e (AWSRegion cfg) secretName w")
  have f1: "serviceAccounts w1 = serviceAccounts w"
    using getECRSecret_frame(2)[of e "AWSRegion cfg" secretName w] g by simp
  show ?thesis
  proof (cases r)
    case (Inl p)
    have "handler cfg e ns w = (Inl p, w1)" using handler_panic live g Inl by simp
    then show ?thesis using f1 by (intro untouched) simp_all
  next
    case (Inr s)
    have n: "secName s = secretName" using g Inr getECRSecret_name by blast
    obtain rerr w2 where sg: "secretsGet e (nsName ns) secretName w1 = (rerr, w2)"
      by (cases "secretsGet e (nsName ns) secretName w1")
    have f2: "serviceAccounts w2 = serviceAccounts w"
      using secret_ops_frame(1)[of e "nsName ns" secretName w1] sg f1 by simp
    show ?thesis
    proof (cases rerr)
      case None
      obtain ue w3 where su: "secretsUpdate e (nsName ns) s
          (emit (Log Info ''Found existing secret in ns: %s, updating...'') w2) = (ue, w3)"
        by (cases "secretsUpdate e (nsName ns) s
          (emit (Log Info ''Found existing secret in ns: %s, updating...'') w2)")
      have f3: "serviceAccounts w3 = serviceAccounts w"
        using secret_ops_frame(2)[of e "nsName ns" s
            "emit (Log Info ''Found existing secret in ns: %s, updating...'') w2"]
          su f2 by (simp add: emit_simps)
      have h: "handler cfg e ns w = ensureDefaultServiceAccount e ns s None
             (if ue \<noteq> None then emit (Log Error ''Error creating secret in ns %s: %s'') w3 else w3)"
        using handler_update_arm[OF live] g Inr sg None su by simp
      show ?thesis
        by (rule identity[OF live n _ h]) (simp add: emit_simps f3)
    next
      case (Some x)
      obtain ce w3 where sc: "secretsCreate e (nsName ns) s
          (emit (Log Info ''Secret does not exist in ns: %s, creating...'') w2) = (ce, w3)"
        by (cases "secretsCreate e (nsName ns) s
          (emit (Log Info ''Secret does not exist in ns: %s, creating...'') w2)")
      have f3: "serviceAccounts w3 = serviceAccounts w"
        using secret_ops_frame(3)[of e "nsName ns" s
            "emit (Log Info ''Secret does not exist in ns: %s, creating...'') w2"]
          sc f2 by (simp add: emit_simps)
      have h: "handler cfg e ns w =
           (if ce \<noteq> None
            then (Inr (Some (ReadError x)), emit (Log Error ''Error creating secret in ns %s: '') w3)
            else ensureDefaultServiceAccount e ns s (Some x) w3)"
        using handler_create_arm[OF live] g Inr sg Some sc by simp
      show ?thesis
      proof (cases "ce = None")
        case True
        with h have "handler cfg e ns w = ensureDefaultServiceAccount e ns s (Some x) w3" by simp
        then show ?thesis by (rule identity[OF live n f3])
      next
        case False
        with h have "handler cfg e ns w =
            (Inr (Some (ReadError x)), emit (Log Error ''Error creating secret in ns %s: '') w3)"
          by simp
        then show ?thesis using f3 by (intro untouched) (simp_all add: emit_simps)
      qed
    qed
  qed
qed


lemma handler_keeps_present:
  assumes "serviceAccounts w (n, ''default'') = Some refs"
    and "secretName \<in> refName ` set refs"
  shows "serviceAccounts (snd (handler cfg e ns w)) (n, ''default'') = Some refs"
proof (cases rule: handler_shape[of cfg e ns w])
  case untouched
  with assms show ?thesis by simp
next
  case (identity s err w')
  show ?thesis
  proof (cases "nsName ns = n")
    case True
    have "serviceAccounts w' (nsName ns, ''default'') = Some refs" "secName s \<in> refName ` set refs"
      using assms identity True by simp_all
    from ensure_present[OF this, of e err] show ?thesis
      using identity assms by simp
  next
    case False
    then have "(n, ''default'') \<noteq> (nsName ns, ''default'')" by simp
    from ensure_other_key[OF this, of e s err w'] show ?thesis
      using identity assms by simp
  qed
qed



lemma countNamed_absent:
  "name \<notin> refName ` set refs \<Longrightarrow> countNamed name refs = 0"
  by (induction refs) (auto simp: countNamed_def)

lemma saGet_fst_cong:
  "serviceAccounts w = serviceAccounts w' \<Longrightarrow>
   fst (serviceAccountsGet e ns n w) = fst (serviceAccountsGet e ns n w')"
  by (simp add: serviceAccountsGet_def Let_def split: option.splits)

lemma ensure_fst_cong:
  assumes "serviceAccounts w = serviceAccounts w'"
  shows "fst (ensureDefaultServiceAccount e ns s err w) =
         fst (ensureDefaultServiceAccount e ns s err' w')"
proof -
  obtain sa derr w1 where g: "serviceAccountsGet e (nsName ns) ''default'' w = ((sa, derr), w1)"
    by (cases "serviceAccountsGet e (nsName ns) ''default'' w") auto
  obtain sa' derr' w1' where g': "serviceAccountsGet e (nsName ns) ''default'' w' = ((sa', derr'), w1')"
    by (cases "serviceAccountsGet e (nsName ns) ''default'' w'") auto
  from saGet_fst_cong[OF assms, of e "nsName ns" "''default''"] g g'
  have same: "sa' = sa" "derr' = derr" by simp_all
  have st: "serviceAccounts w1 = serviceAccounts w" "serviceAccounts w1' = serviceAccounts w'"
    using saGet_snd[of e "nsName ns" "''default''" w] saGet_snd[of e "nsName ns" "''default''" w'] g g'
    by (simp_all add: emit_simps)
  show ?thesis
    unfolding ensure_parts(1)[OF g] ensure_parts(1)[OF g'] same
    by (rule arg_cong[where f = "\<lambda>r. case r of None \<Rightarrow> Inr None | Some x \<Rightarrow> Inr (Some (CouldUpdate x))"],
        rule saUpdate_fst_cong) (simp add: emit_simps st assms)
qed

lemma secret_ops_calls:
  "calls isSecretsCreate (snd (secretsGet e ns n w)) = calls isSecretsCreate w"
  "calls isServiceAccountsGet (snd (secretsGet e ns n w)) = calls isServiceAccountsGet w"
  "calls isServiceAccountsUpdate (snd (secretsGet e ns n w)) = calls isServiceAccountsUpdate w"
  "calls isSecretsCreate (snd (secretsUpdate e ns s w)) = calls isSecretsCreate w"
  "calls isServiceAccountsGet (snd (secretsUpdate e ns s w)) = calls isServiceAccountsGet w"
  "calls isServiceAccountsUpdate (snd (secretsUpdate e ns s w)) = calls isServiceAccountsUpdate w"
  "calls isSecretsCreate (snd (secretsCreate e ns s w)) = Suc (calls isSecretsCreate w)"
  "calls isServiceAccountsGet (snd (secretsCreate e ns s w)) = calls isServiceAccountsGet w"
  "calls isServiceAccountsUpdate (snd (secretsCreate e ns s w)) = calls isServiceAccountsUpdate w"
  by (simp_all add: calls_trace_snoc[OF secret_ops_trace(1)] calls_trace_snoc[OF secret_ops_trace(2)]
        calls_trace_snoc[OF secret_ops_trace(3)])

lemma secret_ops_secrets:
  "secrets (snd (getECRSecret e region name w)) = secrets w"
  "secrets (snd (secretsGet e ns n w)) = secrets w"
  by (simp_all add: getECRSecret_frame secretsGet_secrets)

text \<open>The two arms of the secret step, stated on the cluster the handler was given.\<close>

lemma handler_after_read_ok:
  assumes live: "deletionTimestamp ns = None"
    and g: "getECRSecret e (AWSRegion cfg) secretName w = (Inr s, w1)"
    and rd: "fst (secretsGet e (nsName ns) secretName w) = None"
  shows "\<exists>w'. handler cfg e ns w = ensureDefaultServiceAccount e ns s None w'
           \<and> serviceAccounts w' = serviceAccounts w
           \<and> calls isSecretsCreate w' = calls isSecretsCreate w
           \<and> calls isServiceAccountsGet w' = calls isServiceAccountsGet w
           \<and> calls isServiceAccountsUpdate w' = calls isServiceAccountsUpdate w"
proof -
  have w1: "w1 = snd (getECRSecret e (AWSRegion cfg) secretName w)" using g by simp
  define w2 where "w2 = snd (secretsGet e (nsName ns) secretName w1)"
  have "fst (secretsGet e (nsName ns) secretName w1) = None"
    using secret_ops_fst_cong(1)[of w1 w e "nsName ns" secretName] rd
    by (simp add: w1 getECRSecret_frame)
  then have sg: "secretsGet e (nsName ns) secretName w1 = (None, w2)"
    by (simp add: w2_def prod_eq_iff)
  define l2 where "l2 = emit (Log Info ''Found existing secret in ns: %s, updating...'') w2"
  obtain ue w3 where su: "secretsUpdate e (nsName ns) s l2 = (ue, w3)"
    by (cases "secretsUpdate e (nsName ns) s l2")
  have w3: "w3 = snd (secretsUpdate e (nsName ns) s l2)" using su by simp
  define w4 where "w4 = (if ue \<noteq> None then emit (Log Error ''Error creating secret in ns %s: %s'') w3 else w3)"
  have h: "handler cfg e ns w = ensureDefaultServiceAccount e ns s None w4"
    using handler_update_arm[OF live g sg su[unfolded l2_def]] by (simp add: w4_def)
  have "serviceAccounts w4 = serviceAccounts w"
    by (simp add: w4_def w3 l2_def w2_def w1 emit_simps secret_ops_frame getECRSecret_frame)
  moreover have "calls isSecretsCreate w4 = calls isSecretsCreate w"
    "calls isServiceAccountsGet w4 = calls isServiceAccountsGet w"
    "calls isServiceAccountsUpdate w4 = calls isServiceAccountsUpdate w"
    by (simp_all add: w4_def w3 l2_def w2_def w1 calls_emit secret_ops_calls getECRSecret_calls)
  ultimately show ?thesis using h by blast
qed

lemma handler_after_read_failed:
  assumes live: "deletionTimestamp ns = None"
    and g: "getECRSecret e (AWSRegion cfg) secretName w = (Inr s, w1)"
    and rd: "fst (secretsGet e (nsName ns) secretName w) = Some x"
  shows "\<exists>w'. handler cfg e ns w =
             (if fst (secretsCreate e (nsName ns) s w) \<noteq> None
              then (Inr (Some (ReadError x)), emit (Log Error ''Error creating secret in ns %s: '') w')
              else ensureDefaultServiceAccount e ns s (Some x) w')
           \<and> serviceAccounts w' = serviceAccounts w
           \<and> calls isSecretsCreate w' = Suc (calls isSecretsCreate w)
           \<and> calls isServiceAccountsGet w' = calls isServiceAccountsGet w
           \<and> calls isServiceAccountsUpdate w' = calls isServiceAccountsUpdate w"
proof -
  have w1: "w1 = snd (getECRSecret e (AWSRegion cfg) secretName w)" using g by simp
  define w2 where "w2 = snd (secretsGet e (nsName ns) secretName w1)"
  have "fst (secretsGet e (nsName ns) secretName w1) = Some x"
    using secret_ops_fst_cong(1)[of w1 w e "nsName ns" secretName] rd
    by (simp add: w1 getECRSecret_frame)
  then have sg: "secretsGet e (nsName ns) secretName w1 = (Some x, w2)"
    by (simp add: w2_def prod_eq_iff)
  define l2 where "l2 = emit (Log Info ''Secret does not exist in ns: %s, creating...'') w2"
  obtain ce w3 where sc: "secretsCreate e (nsName ns) s l2 = (ce, w3)"
    by (cases "secretsCreate e (nsName ns) s l2")
  have w3: "w3 = snd (secretsCreate e (nsName ns) s l2)" using sc by simp
  have "secrets l2 = secrets w"
    by (simp add: l2_def w2_def w1 emit_simps secret_ops_secrets)
  from secret_ops_fst_cong(3)[OF this, of e "nsName ns" s] sc
  have ce: "ce = fst (secretsCreate e (nsName ns) s w)" by simp
  have h: "handler cfg e ns w =
             (if fst (secretsCreate e (nsName ns) s w) \<noteq> None
              then (Inr (Some (ReadError x)), emit (Log Error ''Error creating secret in ns %s: '') w3)
              else ensureDefaultServiceAccount e ns s (Some x) w3)"
    using handler_create_arm[OF live g sg sc[unfolded l2_def]] by (simp add: ce)
  have "serviceAccounts w3 = serviceAccounts w"
    by (simp add: w3 l2_def w2_def w1 emit_simps secret_ops_frame getECRSecret_frame)
  moreover have "calls isSecretsCreate w3 = Suc (calls isSecretsCreate w)"
    "calls isServiceAccountsGet w3 = calls isServiceAccountsGet w"
    "calls isServiceAccountsUpdate w3 = calls isServiceAccountsUpdate w"
    by (simp_all add: w3 l2_def w2_def w1 calls_emit secret_ops_calls getECRSecret_calls)
  ultimately show ?thesis using h by blast
qed

lemma countNamed_present:
  "name \<in> refName ` set refs \<longleftrightarrow> 0 < countNamed name refs"
  by (induction refs) (auto simp: countNamed_def)

lemma first_match_split:
  "name \<in> refName ` set refs \<Longrightarrow>
   \<exists>pre r post. refs = pre @ r # post \<and> countNamed name pre = 0 \<and> refName r = name"
proof (induction refs)
  case Nil
  then show ?case by simp
next
  case (Cons a refs)
  show ?case
  proof (cases "refName a = name")
    case True
    then have "a # refs = [] @ a # refs \<and> countNamed name [] = 0 \<and> refName a = name"
      by (simp add: countNamed_def)
    then show ?thesis by blast
  next
    case False
    with Cons.prems have "name \<in> refName ` set refs" by auto
    from Cons.IH[OF this] obtain pre r post where
      "refs = pre @ r # post" "countNamed name pre = 0" "refName r = name" by blast
    with False have "a # refs = (a # pre) @ r # post \<and> countNamed name (a # pre) = 0 \<and> refName r = name"
      by (simp add: countNamed_def)
    then show ?thesis by blast
  qed
qed

lemma handler_store_either:
  assumes "serviceAccounts w (nsName ns, ''default'') = Some refs"
  shows "serviceAccounts (snd (handler cfg e ns w)) (nsName ns, ''default'') = Some refs
       \<or> (secretName \<notin> refName ` set refs \<and>
          serviceAccounts (snd (handler cfg e ns w)) (nsName ns, ''default'')
            = Some (refs @ [\<lparr> refName = secretName \<rparr>]))"
proof (cases rule: handler_shape[of cfg e ns w])
  case untouched
  with assms show ?thesis by simp
next
  case (identity s err w')
  show ?thesis
  proof (cases "fst (ensureDefaultServiceAccount e ns s err w') = Inr None")
    case True
    from ensure_ok[OF True] assms identity show ?thesis by auto
  next
    case False
    from ensure_failed[OF False] assms identity show ?thesis by simp
  qed
qed









section \<open>The claims\<close>

text \<open>
  C1 (the code departs from it). The claim: when the registry authorization call fails,
  the caller of \<open>getECRSecret\<close> receives an explicit error value and the
  authorization-data list is never dereferenced. The code: with the reply
  \<open>(result, err)\<close> where \<open>err\<close> is a ServerException and the list is empty,
  \<open>getECRSecret\<close> prints the error, then indexes the list and panics; the handler that
  called it panics with it.
\<close>

theorem getECRSecret_failure_panics:
  "fst (getECRSecret envEcrDown ''us-east-1'' secretName (clusterWith [])) = Inl IndexOutOfRange
   \<and> fst (handler cfg0 envEcrDown nsDev (clusterWith [])) = Inl IndexOutOfRange"
  by (simp add: run_defs input_defs)

text \<open>
  C3. For a namespace whose deletionTimestamp is set, the handler returns nil and the
  cluster it returns is the cluster it was given, trace included: no call to the
  registry, the secret store or the service-account store was made and nothing was
  logged or written.
\<close>

theorem handler_skips_terminating:
  "deletionTimestamp ns \<noteq> None \<Longrightarrow> handler cfg e ns w = (Inr None, w)"
  by (auto simp: handler_def)

theorem handler_skips_terminating_witness:
  "handler cfg0 envOk (nsDev\<lparr> deletionTimestamp := Some 1500000000 \<rparr>) (clusterWith [otherRef])
     = (Inr None, clusterWith [otherRef])
   \<and> trace (snd (handler cfg0 envOk (nsDev\<lparr> deletionTimestamp := Some 1500000000 \<rparr>)
                 (clusterWith [otherRef]))) = []"
  using handler_skips_terminating
    [of "nsDev\<lparr> deletionTimestamp := Some 1500000000 \<rparr>" cfg0 envOk "clusterWith [otherRef]"]
  by (simp add: nsDev_def clusterWith_def)

text \<open>
  C4 (amended). For every endpoint \<open>e\<close> and token \<open>t\<close> the payload is the template with
  \<open>e\<close> and \<open>t\<close> substituted byte for byte, and it is what \<open>getECRSecret\<close> stores under
  \<open>.dockerconfigjson\<close> when the first authorization entry carries \<open>e\<close> and \<open>t\<close>. Decoding
  the payload recovers \<open>e\<close> and \<open>t\<close> when neither holds a double quote, a backslash or a
  control character: the substitution escapes nothing.
\<close>

theorem payload_exact_and_roundtrip:
  \<open>Sprintf dockerJSONTemplate [e, t] =
      ''{"auths":{"'' @ e @ ''":{"auth":"'' @ t @ ''","email":"none"}}}''
   \<and> (\<not> sessionError env \<and>
        ecrReply env =
          (Some \<lparr> AuthorizationData =
                    \<lparr> AuthorizationToken = Some t, ProxyEndpoint = Some e \<rparr> # ds \<rparr>, err)
        \<longrightarrow> payloadOf (fst (getECRSecret env region name w)) =
              Some (Sprintf dockerJSONTemplate [e, t]))
   \<and> (jsonPlain e \<and> jsonPlain t
        \<longrightarrow> decodeDockerJSON (Sprintf dockerJSONTemplate [e, t]) = Some (e, t))\<close>
  using sprintf_template getECRSecret_payload decode_roundtrip by blast

theorem payload_exact_and_roundtrip_witness:
  \<open>Sprintf dockerJSONTemplate [''https://123.dkr.ecr.us-east-1.amazonaws.com'', ''QUJD''] =
      ''{"auths":{"https://123.dkr.ecr.us-east-1.amazonaws.com":{"auth":"QUJD","email":"none"}}}''
   \<and> payloadOf (fst (getECRSecret envOk ''us-east-1'' secretName (clusterWith []))) =
      Some ''{"auths":{"https://123.dkr.ecr.us-east-1.amazonaws.com":{"auth":"QUJD","email":"none"}}}''
   \<and> decodeDockerJSON
        ''{"auths":{"https://123.dkr.ecr.us-east-1.amazonaws.com":{"auth":"QUJD","email":"none"}}}'' =
      Some (''https://123.dkr.ecr.us-east-1.amazonaws.com'', ''QUJD'')\<close>
proof -
  have plain: "jsonPlain ''https://123.dkr.ecr.us-east-1.amazonaws.com''" "jsonPlain ''QUJD''"
    by (simp_all add: jsonPlain_def)
  have reply: "\<not> sessionError envOk"
    "ecrReply envOk =
       (Some \<lparr> AuthorizationData =
                 \<lparr> AuthorizationToken = Some ''QUJD'',
                   ProxyEndpoint = Some ''https://123.dkr.ecr.us-east-1.amazonaws.com'' \<rparr> # [] \<rparr>,
        None)"
    by (simp_all add: envOk_def ecrOk_def)
  note inst = payload_exact_and_roundtrip
      [of "''https://123.dkr.ecr.us-east-1.amazonaws.com''" "''QUJD''" envOk "[]" None
          "''us-east-1''" secretName "clusterWith []"]
  from inst have bytes:
    \<open>Sprintf dockerJSONTemplate [''https://123.dkr.ecr.us-east-1.amazonaws.com'', ''QUJD''] =
      ''{"auths":{"https://123.dkr.ecr.us-east-1.amazonaws.com":{"auth":"QUJD","email":"none"}}}''\<close>
    by simp
  from inst reply have stored:
    "payloadOf (fst (getECRSecret envOk ''us-east-1'' secretName (clusterWith []))) =
       Some (Sprintf dockerJSONTemplate [''https://123.dkr.ecr.us-east-1.amazonaws.com'', ''QUJD''])"
    by blast
  from inst plain have decoded:
    "decodeDockerJSON
       (Sprintf dockerJSONTemplate [''https://123.dkr.ecr.us-east-1.amazonaws.com'', ''QUJD'']) =
     Some (''https://123.dkr.ecr.us-east-1.amazonaws.com'', ''QUJD'')"
    by blast
  show ?thesis
    using bytes stored[unfolded bytes] decoded[unfolded bytes] by blast
qed

text \<open>
  C4 as stated fails: an endpoint that holds a double quote is copied into the payload
  unescaped, and the payload no longer decodes.
\<close>

theorem payload_roundtrip_counterexample:
  \<open>decodeDockerJSON (Sprintf dockerJSONTemplate [''a"b'', ''QUJD'']) = None\<close>
  by (simp add: dockerJSONTemplate_def decodeDockerJSON_def jsonUnescape_def)

text \<open>
  C5 (the code departs from it). The claim: when the read of the default service account
  fails, that failure is the reconciliation's result and the scan and update are not
  attempted. The code: line 177 compares the read's error with the secret read's error
  and only logs; with a Forbidden read the handler goes on with the zero-valued object,
  appends the reference to its empty list and issues an update for a service account
  with no name. What it returns is that update's error.
\<close>

theorem identity_read_failure_not_surfaced:
  "fst (handler cfg0 (envOk\<lparr> serviceAccountsGetFault := Some Forbidden \<rparr>) nsDev
          (clusterWith [otherRef]))
      = Inr (Some (CouldUpdate EmptyName))
   \<and> filter isServiceAccountsUpdate
        (trace (snd (handler cfg0 (envOk\<lparr> serviceAccountsGetFault := Some Forbidden \<rparr>) nsDev
                       (clusterWith [otherRef]))))
      = [Call (ServiceAccountsUpdate ''dev'' \<lparr> saName = [], ImagePullSecrets = [ecrRef] \<rparr>)]"
  by (simp add: run_defs input_defs)

text \<open>
  C8 (the code departs from it). The claim: when the reference list already holds
  \<open>ecrsecret\<close>, no update call is made. The code: line 195 updates the service account
  whatever the scan found; with the list \<open>[ecrsecret]\<close> one update call is made, carrying
  the list unchanged.
\<close>

theorem unchanged_list_still_updated:
  "filter isServiceAccountsUpdate (trace (snd (handler cfg0 envOk nsDev (clusterWith [ecrRef]))))
     = [Call (ServiceAccountsUpdate ''dev'' \<lparr> saName = ''default'', ImagePullSecrets = [ecrRef] \<rparr>)]
   \<and> serviceAccounts (snd (handler cfg0 envOk nsDev (clusterWith [ecrRef]))) (''dev'', ''default'')
     = Some [ecrRef]"
  by (simp add: run_defs input_defs)

text \<open>
  C9 (the code departs from it). The claim: the resync period equals the configured
  refresh interval. The code: with \<open>-refresh-interval=30\<close> the configuration holds 30 and
  the period passed to the watcher is one minute, 60000000000 nanoseconds; with 120 in
  the configuration the period is the same minute.
\<close>

theorem resync_period_ignores_option:
  "RefreshInterval cfg0 = 30 \<and> mainResyncPeriod cfg0 = 60000000000
   \<and> RefreshInterval (cfg0\<lparr> RefreshInterval := 120 \<rparr>) = 120
   \<and> mainResyncPeriod (cfg0\<lparr> RefreshInterval := 120 \<rparr>) = 60000000000"
  by (simp add: input_defs mainResyncPeriod_def Minute_def Second_def Millisecond_def
        Microsecond_def Nanosecond_def)







text \<open>
  C7 (amended). On a live namespace for which the credential fetch returned a secret:
  when the secret exists and its update fails, the identity step is still run (one read
  and one update of the service account) and the reconciliation returns what the identity
  step returns; when the secret read failed and the create fails, the reconciliation
  returns the read's error at once, with no call to the service-account store and the
  service accounts unchanged.
\<close>

theorem secret_step_failure_arms:
  assumes "deletionTimestamp ns = None"
    and "getECRSecret e (AWSRegion cfg) secretName w = (Inr s, w1)"
  shows "(fst (secretsGet e (nsName ns) secretName w) = None
          \<and> fst (secretsUpdate e (nsName ns) s w) \<noteq> None \<longrightarrow>
            fst (handler cfg e ns w) = fst (ensureDefaultServiceAccount e ns s None w)
          \<and> calls isServiceAccountsGet (snd (handler cfg e ns w)) = Suc (calls isServiceAccountsGet w)
          \<and> calls isServiceAccountsUpdate (snd (handler cfg e ns w)) =
              Suc (calls isServiceAccountsUpdate w))
       \<and> (fst (secretsGet e (nsName ns) secretName w) = Some x
          \<and> fst (secretsCreate e (nsName ns) s w) \<noteq> None \<longrightarrow>
            fst (handler cfg e ns w) = Inr (Some (ReadError x))
          \<and> calls isServiceAccountsGet (snd (handler cfg e ns w)) = calls isServiceAccountsGet w
          \<and> calls isServiceAccountsUpdate (snd (handler cfg e ns w)) = calls isServiceAccountsUpdate w
          \<and> serviceAccounts (snd (handler cfg e ns w)) = serviceAccounts w)"
proof (intro conjI impI; elim conjE)
  assume rd: "fst (secretsGet e (nsName ns) secretName w) = None"
  from handler_after_read_ok[OF assms rd] obtain w' where
    h: "handler cfg e ns w = ensureDefaultServiceAccount e ns s None w'"
    and st: "serviceAccounts w' = serviceAccounts w"
    and c: "calls isServiceAccountsGet w' = calls isServiceAccountsGet w"
      "calls isServiceAccountsUpdate w' = calls isServiceAccountsUpdate w"
    by blast
  show "fst (handler cfg e ns w) = fst (ensureDefaultServiceAccount e ns s None w)"
    unfolding h by (rule ensure_fst_cong[OF st])
  show "calls isServiceAccountsGet (snd (handler cfg e ns w)) = Suc (calls isServiceAccountsGet w)"
    unfolding h by (simp add: ensure_calls c)
  show "calls isServiceAccountsUpdate (snd (handler cfg e ns w)) = Suc (calls isServiceAccountsUpdate w)"
    unfolding h by (simp add: ensure_calls c)
next
  assume rd: "fst (secretsGet e (nsName ns) secretName w) = Some x"
    and cr: "fst (secretsCreate e (nsName ns) s w) \<noteq> None"
  from handler_after_read_failed[OF assms rd] cr obtain w' where
    h: "handler cfg e ns w =
          (Inr (Some (ReadError x)), emit (Log Error ''Error creating secret in ns %s: '') w')"
    and st: "serviceAccounts w' = serviceAccounts w"
    and c: "calls isServiceAccountsGet w' = calls isServiceAccountsGet w"
      "calls isServiceAccountsUpdate w' = calls isServiceAccountsUpdate w"
    by auto
  show "fst (handler cfg e ns w) = Inr (Some (ReadError x))"
    unfolding h by simp
  show "calls isServiceAccountsGet (snd (handler cfg e ns w)) = calls isServiceAccountsGet w"
    unfolding h by (simp add: calls_emit c)
  show "calls isServiceAccountsUpdate (snd (handler cfg e ns w)) = calls isServiceAccountsUpdate w"
    unfolding h by (simp add: calls_emit c)
  show "serviceAccounts (snd (handler cfg e ns w)) = serviceAccounts w"
    unfolding h by (simp add: emit_simps st)
qed

theorem secret_step_failure_arms_witness:
  "fst (handler cfg0 envUpdateFails nsDev (clusterWithSecret [otherRef]))
     = fst (ensureDefaultServiceAccount envUpdateFails nsDev secretOk None (clusterWithSecret [otherRef]))
   \<and> calls isServiceAccountsGet (snd (handler cfg0 envUpdateFails nsDev (clusterWithSecret [otherRef]))) = 1
   \<and> calls isServiceAccountsUpdate (snd (handler cfg0 envUpdateFails nsDev (clusterWithSecret [otherRef]))) = 1
   \<and> fst (handler cfg0 envCreateFails nsDev (clusterWith [otherRef])) = Inr (Some (ReadError NotFound))
   \<and> calls isServiceAccountsGet (snd (handler cfg0 envCreateFails nsDev (clusterWith [otherRef]))) = 0
   \<and> calls isServiceAccountsUpdate (snd (handler cfg0 envCreateFails nsDev (clusterWith [otherRef]))) = 0"
proof -
  have live: "deletionTimestamp nsDev = None" by (simp add: nsDev_def)
  have g1: "getECRSecret envUpdateFails (AWSRegion cfg0) secretName (clusterWithSecret [otherRef]) =
      (Inr secretOk, snd (getECRSecret envOk ''us-east-1'' secretName (clusterWithSecret [otherRef])))"
    by (simp add: getECRSecret_def input_defs secretOk_def secretName_def Let_def)
  have g2: "getECRSecret envCreateFails (AWSRegion cfg0) secretName (clusterWith [otherRef]) =
      (Inr secretOk, snd (getECRSecret envOk ''us-east-1'' secretName (clusterWith [otherRef])))"
    by (simp add: getECRSecret_def input_defs secretOk_def secretName_def Let_def)
  have r1: "fst (secretsGet envUpdateFails (nsName nsDev) secretName (clusterWithSecret [otherRef])) = None"
    by (simp add: secretsGet_def input_defs secretName_def Let_def)
  have u1: "fst (secretsUpdate envUpdateFails (nsName nsDev) secretOk (clusterWithSecret [otherRef])) \<noteq> None"
    by (simp add: secretsUpdate_def input_defs Let_def)
  have r2: "fst (secretsGet envCreateFails (nsName nsDev) secretName (clusterWith [otherRef])) = Some NotFound"
    by (simp add: secretsGet_def input_defs Let_def)
  have c2: "fst (secretsCreate envCreateFails (nsName nsDev) secretOk (clusterWith [otherRef])) \<noteq> None"
    by (simp add: secretsCreate_def input_defs Let_def)
  have z: "calls isServiceAccountsGet (clusterWith [otherRef]) = 0"
    "calls isServiceAccountsUpdate (clusterWith [otherRef]) = 0"
    "calls isServiceAccountsGet (clusterWithSecret [otherRef]) = 0"
    "calls isServiceAccountsUpdate (clusterWithSecret [otherRef]) = 0"
    by (simp_all add: calls_def clusterWith_def clusterWithSecret_def)
  from secret_step_failure_arms[OF live g1, of Forbidden] r1 u1 z
  have "fst (handler cfg0 envUpdateFails nsDev (clusterWithSecret [otherRef]))
     = fst (ensureDefaultServiceAccount envUpdateFails nsDev secretOk None (clusterWithSecret [otherRef]))"
    "calls isServiceAccountsGet (snd (handler cfg0 envUpdateFails nsDev (clusterWithSecret [otherRef]))) = 1"
    "calls isServiceAccountsUpdate (snd (handler cfg0 envUpdateFails nsDev (clusterWithSecret [otherRef]))) = 1"
    by simp_all
  moreover from secret_step_failure_arms[OF live g2, of NotFound] r2 c2 z
  have "fst (handler cfg0 envCreateFails nsDev (clusterWith [otherRef])) = Inr (Some (ReadError NotFound))"
    "calls isServiceAccountsGet (snd (handler cfg0 envCreateFails nsDev (clusterWith [otherRef]))) = 0"
    "calls isServiceAccountsUpdate (snd (handler cfg0 envCreateFails nsDev (clusterWith [otherRef]))) = 0"
    by simp_all
  ultimately show ?thesis by simp
qed

text \<open>
  C7 as stated fails on the create arm: the secret is absent, the create is refused, and
  the handler returns the read's error without reading or updating the service account.
\<close>

theorem create_failure_skips_identity_counterexample:
  "fst (secretsCreate envCreateFails ''dev'' secretOk (clusterWith [otherRef])) = Some Forbidden
   \<and> calls isServiceAccountsGet (snd (handler cfg0 envCreateFails nsDev (clusterWith [otherRef]))) = 0
   \<and> calls isServiceAccountsUpdate (snd (handler cfg0 envCreateFails nsDev (clusterWith [otherRef]))) = 0
   \<and> fst (handler cfg0 envCreateFails nsDev (clusterWith [otherRef])) = Inr (Some (ReadError NotFound))"
  by (simp add: run_defs input_defs calls_def)

text \<open>
  C10. The default service account holds the list \<open>refs\<close>. If two or more of its entries
  are named \<open>ecrsecret\<close>, the scan reports the name found and returns the list as it is,
  whatever follows the first match (the entries after it are not visited), and after the
  run, whatever the outside world answered, the stored list is \<open>refs\<close>: every duplicate
  is still there. If at most one entry has the name, at most one has it after the run.
\<close>

theorem duplicates_left_in_place:
  assumes "serviceAccounts w (nsName ns, ''default'') = Some refs"
  shows "(2 \<le> countNamed secretName refs \<longrightarrow>
            serviceAccounts (snd (handler cfg e ns w)) (nsName ns, ''default'') = Some refs
          \<and> scanImagePullSecrets secretName refs = (refs, True)
          \<and> (\<exists>pre r post. refs = pre @ r # post \<and> countNamed secretName pre = 0
                \<and> refName r = secretName
                \<and> (\<forall>post'. scanImagePullSecrets secretName (pre @ r # post')
                              = (pre @ r # post', True))))
       \<and> (countNamed secretName refs \<le> 1 \<longrightarrow>
            (\<exists>refs'. serviceAccounts (snd (handler cfg e ns w)) (nsName ns, ''default'') = Some refs'
                \<and> countNamed secretName refs' \<le> 1))"
proof (intro conjI impI)
  assume dup: "2 \<le> countNamed secretName refs"
  then have present: "secretName \<in> refName ` set refs"
    by (simp add: countNamed_present)
  show "serviceAccounts (snd (handler cfg e ns w)) (nsName ns, ''default'') = Some refs"
    by (rule handler_keeps_present[OF assms present])
  show "scanImagePullSecrets secretName refs = (refs, True)"
    by (rule scan_present[OF present])
  from first_match_split[OF present] obtain pre r post where
    sp: "refs = pre @ r # post" "countNamed secretName pre = 0" "refName r = secretName"
    by blast
  from sp(2) have "secretName \<notin> refName ` set pre"
    by (simp add: countNamed_present)
  from scan_first_match[OF this sp(3)] sp
  show "\<exists>pre r post. refs = pre @ r # post \<and> countNamed secretName pre = 0
          \<and> refName r = secretName
          \<and> (\<forall>post'. scanImagePullSecrets secretName (pre @ r # post') = (pre @ r # post', True))"
    by blast
next
  assume le: "countNamed secretName refs \<le> 1"
  from handler_store_either[OF assms, of cfg e]
  show "\<exists>refs'. serviceAccounts (snd (handler cfg e ns w)) (nsName ns, ''default'') = Some refs'
          \<and> countNamed secretName refs' \<le> 1"
  proof
    assume "serviceAccounts (snd (handler cfg e ns w)) (nsName ns, ''default'') = Some refs"
    with le show ?thesis by blast
  next
    assume a: "secretName \<notin> refName ` set refs \<and>
          serviceAccounts (snd (handler cfg e ns w)) (nsName ns, ''default'')
            = Some (refs @ [\<lparr> refName = secretName \<rparr>])"
    then have "countNamed secretName (refs @ [\<lparr> refName = secretName \<rparr>]) \<le> 1"
      using countNamed_absent[of secretName refs] by (simp add: countNamed_def)
    with a show ?thesis by blast
  qed
qed

theorem duplicates_left_in_place_witness:
  "serviceAccounts (snd (handler cfg0 envOk nsDev (clusterWith [ecrRef, otherRef, ecrRef])))
     (''dev'', ''default'') = Some [ecrRef, otherRef, ecrRef]
   \<and> scanImagePullSecrets secretName [ecrRef, otherRef, ecrRef] = ([ecrRef, otherRef, ecrRef], True)
   \<and> countNamed secretName [ecrRef, otherRef, ecrRef] = 2
   \<and> (\<exists>refs'. serviceAccounts (snd (handler cfg0 envOk nsDev (clusterWith [otherRef])))
                  (''dev'', ''default'') = Some refs' \<and> countNamed secretName refs' \<le> 1)"
proof -
  have two: "countNamed secretName [ecrRef, otherRef, ecrRef] = 2"
    and one: "countNamed secretName [otherRef] \<le> 1"
    by (simp_all add: countNamed_def secretName_def ecrRef_def otherRef_def)
  have st: "serviceAccounts (clusterWith [ecrRef, otherRef, ecrRef]) (nsName nsDev, ''default'')
              = Some [ecrRef, otherRef, ecrRef]"
    "serviceAccounts (clusterWith [otherRef]) (nsName nsDev, ''default'') = Some [otherRef]"
    by (simp_all add: clusterWith_def nsDev_def)
  have n: "nsName nsDev = ''dev''" by (simp add: nsDev_def)
  from duplicates_left_in_place[OF st(1), of cfg0 envOk] two
  have "serviceAccounts (snd (handler cfg0 envOk nsDev (clusterWith [ecrRef, otherRef, ecrRef])))
     (''dev'', ''default'') = Some [ecrRef, otherRef, ecrRef]"
    "scanImagePullSecrets secretName [ecrRef, otherRef, ecrRef] = ([ecrRef, otherRef, ecrRef], True)"
    by (simp_all add: n)
  moreover from duplicates_left_in_place[OF st(2), of cfg0 envOk] one
  have "\<exists>refs'. serviceAccounts (snd (handler cfg0 envOk nsDev (clusterWith [otherRef])))
                  (''dev'', ''default'') = Some refs' \<and> countNamed secretName refs' \<le> 1"
    by (simp add: n)
  ultimately show ?thesis using two by simp
qed

end
